theory Spec2Isabelle
  imports Complex_Main "HOL-Library.Char_ord"
begin

text \<open>
  A shallow embedding of the search page's query controller (\<^verbatim>\<open>src/App.tsx\<close>, the
  extended variant, with the URL of the simple variant of the second source file): the
  component state, the handlers, the debounced search function split at its
  \<^verbatim>\<open>await\<close>, the URL it requests and the normalisation of the result items.

  Conventions. A JavaScript string is a \<^typ>\<open>string\<close> holding its UTF-8 bytes (so lone
  surrogates are not represented). A JavaScript number is a \<^typ>\<open>rat\<close>, or \<open>NaN\<close> where the
  code can produce it: IEEE rounding is not modelled, and the two conversions between
  numbers and strings that depend on it are parameters of the model (\<open>engine\<close>).
  \<open>undefined\<close> is a value of its own, and an object is the list of its members in the
  order they were written, a later member overriding an earlier one of the same name.
  An exception is the left summand of a sum type.
\<close>

section \<open>JavaScript values\<close>

datatype jsval =
    JUndefined
  | JNull
  | JBool bool
  | JNumber rat
  | JString string
  | JArray "jsval list"
  | JObject "(string \<times> jsval) list"

datatype jsnum = Num rat | NaN

datatype js_error = TypeError | SyntaxError | HttpError int | NetworkError

text \<open>
  \<open>num2str\<close> is \<^verbatim>\<open>Number.prototype.toString\<close> (what a template literal and
  \<^verbatim>\<open>String(n)\<close> produce), \<open>str2num\<close> the conversion of a string to a number.
\<close>

record engine =
  num2str :: "rat \<Rightarrow> string"
  str2num :: "string \<Rightarrow> jsnum"

text \<open>
  Property access \<^verbatim>\<open>v[k]\<close>. It throws on \<open>undefined\<close> and \<open>null\<close>. On every other value
  it is the own property, or \<open>undefined\<close>: the model is used for the keys the code reads
  (\<open>text\<close>, \<open>name\<close>, \<open>location\<close>, \<open>summary\<close>, \<open>score\<close>, \<open>embedding_time\<close>,
  \<open>search_time\<close>, \<open>results\<close>), none of which a prototype of a JSON value defines.
\<close>

definition own_property :: "(string \<times> jsval) list \<Rightarrow> string \<Rightarrow> jsval option" where
  "own_property ms k = map_of (rev ms) k"

fun get_prop :: "jsval \<Rightarrow> string \<Rightarrow> js_error + jsval" where
  "get_prop JUndefined k = Inl TypeError"
| "get_prop JNull k = Inl TypeError"
| "get_prop (JObject ms) k =
     Inr (case own_property ms k of None \<Rightarrow> JUndefined | Some v \<Rightarrow> v)"
| "get_prop v k = Inr JUndefined"

section \<open>JSON text\<close>

text \<open>
  \<^verbatim>\<open>JSON.parse\<close> is a built-in of the language. It is modelled by a lexer and a pushdown
  recogniser for the JSON grammar (ECMA-404), both structurally recursive on their input;
  \<open>None\<close> is the \<open>SyntaxError\<close> it throws.
\<close>

datatype token =
    TLBrace | TRBrace | TLBracket | TRBracket | TColon | TComma
  | TString string
  | TAtom jsval

datatype unit16 = Byte char | Unit nat

datatype lstate =
    LTop
  | LStr "unit16 list"
  | LEsc "unit16 list"
  | LUni "unit16 list" "nat list"
  | LNum string
  | LLit string

definition is_ws :: "char \<Rightarrow> bool" where
  "is_ws c = (c = CHR '' '' \<or> c = CHR 0x09 \<or> c = CHR 0x0A \<or> c = CHR 0x0D)"

definition is_digit :: "char \<Rightarrow> bool" where
  "is_digit c = (CHR ''0'' \<le> c \<and> c \<le> CHR ''9'')"

definition digit_val :: "char \<Rightarrow> nat" where
  "digit_val c = of_char c - 48"

definition hex_val :: "char \<Rightarrow> nat option" where
  "hex_val c =
     (if is_digit c then Some (of_char c - 48)
      else if CHR ''a'' \<le> c \<and> c \<le> CHR ''f'' then Some (of_char c - 87)
      else if CHR ''A'' \<le> c \<and> c \<le> CHR ''F'' then Some (of_char c - 55)
      else None)"

definition utf8 :: "nat \<Rightarrow> string" where
  "utf8 n =
     (if n < 0x80 then [char_of n]
      else if n < 0x800 then [char_of (0xC0 + n div 64), char_of (0x80 + n mod 64)]
      else if n < 0x10000 then
        [char_of (0xE0 + n div 4096), char_of (0x80 + (n div 64) mod 64), char_of (0x80 + n mod 64)]
      else
        [char_of (0xF0 + n div 262144), char_of (0x80 + (n div 4096) mod 64),
         char_of (0x80 + (n div 64) mod 64), char_of (0x80 + n mod 64)])"

fun units_to_string :: "unit16 list \<Rightarrow> string" where
  "units_to_string [] = []"
| "units_to_string (Byte c # us) = c # units_to_string us"
| "units_to_string (Unit hi # Unit lo # us) =
     (if 0xD800 \<le> hi \<and> hi < 0xDC00 \<and> 0xDC00 \<le> lo \<and> lo < 0xE000
      then utf8 (0x10000 + (hi - 0xD800) * 1024 + (lo - 0xDC00)) @ units_to_string us
      else utf8 hi @ units_to_string (Unit lo # us))"
| "units_to_string (Unit n # us) = utf8 n @ units_to_string us"

definition unescape :: "char \<Rightarrow> char option" where
  "unescape c =
     (if c = CHR 0x22 then Some (CHR 0x22)
      else if c = CHR 0x5C then Some (CHR 0x5C)
      else if c = CHR ''/'' then Some (CHR ''/'')
      else if c = CHR ''b'' then Some (CHR 0x08)
      else if c = CHR ''f'' then Some (CHR 0x0C)
      else if c = CHR ''n'' then Some (CHR 0x0A)
      else if c = CHR ''r'' then Some (CHR 0x0D)
      else if c = CHR ''t'' then Some (CHR 0x09)
      else None)"

definition digits_val :: "string \<Rightarrow> nat" where
  "digits_val ds = foldl (\<lambda>a c. 10 * a + digit_val c) 0 ds"

definition int_part_ok :: "string \<Rightarrow> bool" where
  "int_part_ok ds = (ds \<noteq> [] \<and> (hd ds = CHR ''0'' \<longrightarrow> length ds = 1))"

definition exponent_of :: "string \<Rightarrow> int option" where
  "exponent_of cs =
     (case cs of
        [] \<Rightarrow> Some 0
      | e # r \<Rightarrow>
          if e = CHR ''e'' \<or> e = CHR ''E'' then
            (let neg = (r \<noteq> [] \<and> hd r = CHR ''-'');
                 ds = (if r \<noteq> [] \<and> (hd r = CHR ''-'' \<or> hd r = CHR ''+'') then tl r else r)
             in if ds \<noteq> [] \<and> list_all is_digit ds
                then Some (if neg then - int (digits_val ds) else int (digits_val ds))
                else None)
          else None)"

definition number_of :: "string \<Rightarrow> rat option" where
  "number_of cs =
     (let neg = (cs \<noteq> [] \<and> hd cs = CHR ''-'');
          body = (if neg then tl cs else cs);
          ip = takeWhile is_digit body;
          r1 = dropWhile is_digit body;
          fp = (if r1 \<noteq> [] \<and> hd r1 = CHR ''.'' then takeWhile is_digit (tl r1) else []);
          r2 = (if r1 \<noteq> [] \<and> hd r1 = CHR ''.'' then dropWhile is_digit (tl r1) else r1)
      in if \<not> int_part_ok ip \<or> (r1 \<noteq> [] \<and> hd r1 = CHR ''.'' \<and> fp = []) then None
         else case exponent_of r2 of
                None \<Rightarrow> None
              | Some e \<Rightarrow>
                  (let m = of_nat (digits_val (ip @ fp)) / 10 ^ length fp;
                       v = (if 0 \<le> e then m * 10 ^ nat e else m / 10 ^ nat (- e))
                   in Some (if neg then - v else v)))"

definition literal_of :: "string \<Rightarrow> jsval option" where
  "literal_of cs =
     (if cs = ''true'' then Some (JBool True)
      else if cs = ''false'' then Some (JBool False)
      else if cs = ''null'' then Some JNull
      else None)"

definition punct :: "char \<Rightarrow> token option" where
  "punct c =
     (if c = CHR ''{'' then Some TLBrace
      else if c = CHR ''}'' then Some TRBrace
      else if c = CHR ''['' then Some TLBracket
      else if c = CHR '']'' then Some TRBracket
      else if c = CHR '':'' then Some TColon
      else if c = CHR '','' then Some TComma
      else None)"

definition emit :: "token list \<Rightarrow> token list option \<Rightarrow> token list option" where
  "emit ts r = map_option ((@) ts) r"

definition delim :: "char \<Rightarrow> token list option" where
  "delim c = (if is_ws c then Some [] else map_option (\<lambda>t. [t]) (punct c))"

definition is_num_char :: "char \<Rightarrow> bool" where
  "is_num_char c = (is_digit c \<or> c \<in> set ''+-.eE'')"

definition is_lower :: "char \<Rightarrow> bool" where
  "is_lower c = (CHR ''a'' \<le> c \<and> c \<le> CHR ''z'')"

fun lex :: "lstate \<Rightarrow> string \<Rightarrow> token list option" where
  "lex LTop [] = Some []"
| "lex (LNum acc) [] =
     (case number_of (rev acc) of None \<Rightarrow> None | Some r \<Rightarrow> Some [TAtom (JNumber r)])"
| "lex (LLit acc) [] =
     (case literal_of (rev acc) of None \<Rightarrow> None | Some v \<Rightarrow> Some [TAtom v])"
| "lex _ [] = None"
| "lex LTop (c # cs) =
     (if is_ws c then lex LTop cs
      else if c = CHR 0x22 then lex (LStr []) cs
      else if c = CHR ''-'' \<or> is_digit c then lex (LNum [c]) cs
      else if is_lower c then lex (LLit [c]) cs
      else case punct c of None \<Rightarrow> None | Some t \<Rightarrow> emit [t] (lex LTop cs))"
| "lex (LStr acc) (c # cs) =
     (if c = CHR 0x22 then emit [TString (units_to_string (rev acc))] (lex LTop cs)
      else if c = CHR 0x5C then lex (LEsc acc) cs
      else if c < CHR 0x20 then None
      else lex (LStr (Byte c # acc)) cs)"
| "lex (LEsc acc) (c # cs) =
     (if c = CHR ''u'' then lex (LUni acc []) cs
      else case unescape c of None \<Rightarrow> None | Some d \<Rightarrow> lex (LStr (Byte d # acc)) cs)"
| "lex (LUni acc ds) (c # cs) =
     (case hex_val c of
        None \<Rightarrow> None
      | Some d \<Rightarrow>
          if length ds = 3
          then lex (LStr (Unit (foldl (\<lambda>a h. 16 * a + h) 0 (ds @ [d])) # acc)) cs
          else lex (LUni acc (ds @ [d])) cs)"
| "lex (LNum acc) (c # cs) =
     (if is_num_char c then lex (LNum (c # acc)) cs
      else case (number_of (rev acc), delim c) of
             (Some r, Some ts) \<Rightarrow> emit (TAtom (JNumber r) # ts) (lex LTop cs)
           | _ \<Rightarrow> None)"
| "lex (LLit acc) (c # cs) =
     (if is_lower c then lex (LLit (c # acc)) cs
      else case (literal_of (rev acc), delim c) of
             (Some v, Some ts) \<Rightarrow> emit (TAtom v # ts) (lex LTop cs)
           | _ \<Rightarrow> None)"

datatype frame =
    FArr "jsval list"
  | FObj "(string \<times> jsval) list"
  | FKey "(string \<times> jsval) list" string

datatype pmode = MValue | MValueOrEnd | MKeyOrEnd | MKey | MColon | MAfter | MDone jsval

fun complete_value :: "jsval \<Rightarrow> frame list \<Rightarrow> (pmode \<times> frame list) option" where
  "complete_value v [] = Some (MDone v, [])"
| "complete_value v (FArr acc # st) = Some (MAfter, FArr (v # acc) # st)"
| "complete_value v (FKey acc k # st) = Some (MAfter, FObj ((k, v) # acc) # st)"
| "complete_value v (FObj acc # st) = None"

fun pstep :: "pmode \<Rightarrow> frame list \<Rightarrow> token \<Rightarrow> (pmode \<times> frame list) option" where
  "pstep (MDone v) st t = None"
| "pstep MColon st t = (if t = TColon then Some (MValue, st) else None)"
| "pstep MAfter (FArr acc # st) TComma = Some (MValue, FArr acc # st)"
| "pstep MAfter (FObj acc # st) TComma = Some (MKey, FObj acc # st)"
| "pstep MAfter (FArr acc # st) TRBracket = complete_value (JArray (rev acc)) st"
| "pstep MAfter (FObj acc # st) TRBrace = complete_value (JObject (rev acc)) st"
| "pstep MAfter st t = None"
| "pstep MKeyOrEnd (FObj acc # st) TRBrace = complete_value (JObject (rev acc)) st"
| "pstep MKeyOrEnd (FObj acc # st) (TString k) = Some (MColon, FKey acc k # st)"
| "pstep MKeyOrEnd st t = None"
| "pstep MKey (FObj acc # st) (TString k) = Some (MColon, FKey acc k # st)"
| "pstep MKey st t = None"
| "pstep MValueOrEnd (FArr acc # st) TRBracket = complete_value (JArray (rev acc)) st"
| "pstep m st (TString s) = complete_value (JString s) st"
| "pstep m st (TAtom v) = complete_value v st"
| "pstep m st TLBracket = Some (MValueOrEnd, FArr [] # st)"
| "pstep m st TLBrace = Some (MKeyOrEnd, FObj [] # st)"
| "pstep m st t = None"

fun parse_tokens :: "pmode \<Rightarrow> frame list \<Rightarrow> token list \<Rightarrow> jsval option" where
  "parse_tokens (MDone v) [] [] = Some v"
| "parse_tokens m st [] = None"
| "parse_tokens m st (t # ts) =
     (case pstep m st t of None \<Rightarrow> None | Some (m', st') \<Rightarrow> parse_tokens m' st' ts)"

definition JSON_parse :: "string \<Rightarrow> jsval option" where
  "JSON_parse s = (case lex LTop s of None \<Rightarrow> None | Some ts \<Rightarrow> parse_tokens MValue [] ts)"

section \<open>Conversions\<close>

text \<open>
  \<^verbatim>\<open>ToString\<close>, which \<^verbatim>\<open>JSON.parse\<close> applies to its argument. An object of JSON origin
  prints as \<open>[object Object]\<close>, unless it has a member named \<open>toString\<close>: that member is
  not callable, \<^verbatim>\<open>valueOf\<close> returns the object itself, and the conversion throws. An array
  is the join of its elements with commas, \<open>null\<close> and \<open>undefined\<close> elements printing as
  the empty string.
\<close>

fun join_strs :: "(js_error + string) list \<Rightarrow> js_error + string" where
  "join_strs [] = Inr []"
| "join_strs [x] = x"
| "join_strs (x # y # ys) =
     (case x of
        Inl e \<Rightarrow> Inl e
      | Inr s \<Rightarrow> (case join_strs (y # ys) of Inl e \<Rightarrow> Inl e | Inr r \<Rightarrow> Inr (s @ '','' @ r)))"

fun ToString :: "engine \<Rightarrow> jsval \<Rightarrow> js_error + string" where
  "ToString E JUndefined = Inr ''undefined''"
| "ToString E JNull = Inr ''null''"
| "ToString E (JBool b) = Inr (if b then ''true'' else ''false'')"
| "ToString E (JNumber n) = Inr (num2str E n)"
| "ToString E (JString s) = Inr s"
| "ToString E (JObject ms) =
     (if own_property ms ''toString'' = None then Inr ''[object Object]'' else Inl TypeError)"
| "ToString E (JArray xs) =
     join_strs (map (\<lambda>x. if x = JUndefined \<or> x = JNull then Inr [] else ToString E x) xs)"

definition ToNumber :: "engine \<Rightarrow> jsval \<Rightarrow> js_error + jsnum" where
  "ToNumber E v =
     (case v of
        JUndefined \<Rightarrow> Inr NaN
      | JNull \<Rightarrow> Inr (Num 0)
      | JBool b \<Rightarrow> Inr (Num (if b then 1 else 0))
      | JNumber n \<Rightarrow> Inr (Num n)
      | _ \<Rightarrow> (case ToString E v of Inl e \<Rightarrow> Inl e | Inr s \<Rightarrow> Inr (str2num E s)))"

text \<open>The quotient \<^verbatim>\<open>x / d\<close> for a numeric literal \<open>d\<close> other than zero.\<close>

definition js_divide :: "engine \<Rightarrow> jsval \<Rightarrow> rat \<Rightarrow> js_error + jsnum" where
  "js_divide E x d =
     (case ToNumber E x of
        Inl e \<Rightarrow> Inl e
      | Inr NaN \<Rightarrow> Inr NaN
      | Inr (Num a) \<Rightarrow> Inr (Num (a / d)))"

text \<open>\<^verbatim>\<open>JSON.parse(v)\<close> for any value \<open>v\<close>: the argument is converted to a string first.\<close>

definition JSON_parse_value :: "engine \<Rightarrow> jsval \<Rightarrow> js_error + jsval" where
  "JSON_parse_value E v =
     (case ToString E v of
        Inl e \<Rightarrow> Inl e
      | Inr s \<Rightarrow> (case JSON_parse s of None \<Rightarrow> Inl SyntaxError | Some j \<Rightarrow> Inr j))"

text \<open>
  A concrete engine, for evaluating examples: it prints a number in decimal notation (at
  most twenty fractional digits) and reads a string by the JSON number grammar. On the
  integers and short decimals of the examples this is what a JavaScript engine does.
\<close>

definition digit_char :: "nat \<Rightarrow> char" where
  "digit_char n = ''0123456789'' ! (n mod 10)"

fun nat_str :: "nat \<Rightarrow> string" where
  "nat_str n = (if n < 10 then [digit_char n] else nat_str (n div 10) @ [digit_char n])"

fun frac_str :: "nat \<Rightarrow> rat \<Rightarrow> string" where
  "frac_str 0 f = []"
| "frac_str (Suc k) f =
     (if f = 0 then []
      else digit_char (nat \<lfloor>f * 10\<rfloor>) # frac_str k (f * 10 - of_int \<lfloor>f * 10\<rfloor>))"

definition decimal_str :: "rat \<Rightarrow> string" where
  "decimal_str r =
     (let a = \<bar>r\<bar>; f = a - of_int \<lfloor>a\<rfloor>
      in (if r < 0 then ''-'' else []) @ nat_str (nat \<lfloor>a\<rfloor>) @
         (if f = 0 then [] else ''.'' @ frac_str 20 f))"

definition sample_engine :: engine where
  "sample_engine =
     \<lparr>num2str = decimal_str,
      str2num = (\<lambda>s. case number_of s of None \<Rightarrow> NaN | Some r \<Rightarrow> Num r)\<rparr>"

section \<open>The request URL\<close>

definition uri_unreserved :: "char \<Rightarrow> bool" where
  "uri_unreserved c =
     ((CHR ''A'' \<le> c \<and> c \<le> CHR ''Z'') \<or> (CHR ''a'' \<le> c \<and> c \<le> CHR ''z'') \<or>
      (CHR ''0'' \<le> c \<and> c \<le> CHR ''9'') \<or> c \<in> set ''-_.!~*()'' \<or> c = CHR 0x27)"

definition hex_digit :: "nat \<Rightarrow> char" where
  "hex_digit n = ''0123456789ABCDEF'' ! (n mod 16)"

definition percent :: "char \<Rightarrow> string" where
  "percent c = [CHR ''%'', hex_digit (of_char c div 16), hex_digit (of_char c mod 16)]"

definition encodeURIComponent :: "string \<Rightarrow> string" where
  "encodeURIComponent s = concat (map (\<lambda>c. if uri_unreserved c then [c] else percent c) s)"

definition bool_str :: "bool \<Rightarrow> string" where
  "bool_str b = (if b then ''true'' else ''false'')"

text \<open>
  The arguments of the debounced function, in the order of its parameters:
  \<open>search\<close>, \<open>threshold\<close>, \<open>fast\<close>, \<open>limit\<close>, \<open>speed\<close>, \<open>dataset\<close>.
\<close>

type_synonym args = "string \<times> rat \<times> bool \<times> rat \<times> rat \<times> string"

definition endpoint :: string where
  "endpoint = ''https://po65lcryad.execute-api.us-east-1.amazonaws.com/dev/search''"

definition url :: "engine \<Rightarrow> args \<Rightarrow> string" where
  "url E a =
     (case a of (search, threshold, fast, limit, speed, dataset) \<Rightarrow>
        endpoint @ ''?search='' @ encodeURIComponent search @ ''&optimized='' @ bool_str fast @
        ''&limit='' @ num2str E limit @ ''&threshold='' @ num2str E threshold @
        ''&speed='' @ num2str E speed @ ''&dataset='' @ dataset)"










section \<open>Result normalisation\<close>

text \<open>
  The object literal built from the parsed text. Each of the five reads throws when
  \<open>jsonData\<close> is \<open>null\<close>.
\<close>

definition project :: "jsval \<Rightarrow> js_error + jsval" where
  "project jsonData =
     (case get_prop jsonData ''name'' of Inl e \<Rightarrow> Inl e | Inr name \<Rightarrow>
     (case get_prop jsonData ''location'' of Inl e \<Rightarrow> Inl e | Inr location \<Rightarrow>
     (case get_prop jsonData ''summary'' of Inl e \<Rightarrow> Inl e | Inr summary \<Rightarrow>
     (case get_prop jsonData ''text'' of Inl e \<Rightarrow> Inl e | Inr text \<Rightarrow>
     (case get_prop jsonData ''score'' of Inl e \<Rightarrow> Inl e | Inr score \<Rightarrow>
        Inr (JObject [(''name'', name), (''location'', location), (''summary'', summary),
                      (''text'', text), (''score'', score)]))))))"

text \<open>
  The callback of \<^verbatim>\<open>rawResults.map\<close>. An exception in the \<^verbatim>\<open>try\<close> block (from
  \<^verbatim>\<open>result.text\<close>, from \<^verbatim>\<open>JSON.parse\<close> or from a read of \<open>jsonData\<close>) goes to the
  \<^verbatim>\<open>catch\<close> block, which reads \<^verbatim>\<open>result.text\<close> again: that read throws out of the
  callback exactly when the first one did.
\<close>

definition processResult :: "engine \<Rightarrow> jsval \<Rightarrow> js_error + jsval" where
  "processResult E result =
     (case get_prop result ''text'' of
        Inl e \<Rightarrow> Inl e
      | Inr t \<Rightarrow>
          (case JSON_parse_value E t of
             Inl e \<Rightarrow> Inr (JObject [(''text'', t)])
           | Inr jsonData \<Rightarrow>
               (case project jsonData of
                  Inl e \<Rightarrow> Inr (JObject [(''text'', t)])
                | Inr r \<Rightarrow> Inr r)))"

fun map_results :: "('a \<Rightarrow> js_error + 'b) \<Rightarrow> 'a list \<Rightarrow> js_error + 'b list" where
  "map_results f [] = Inr []"
| "map_results f (x # xs) =
     (case f x of
        Inl e \<Rightarrow> Inl e
      | Inr y \<Rightarrow> (case map_results f xs of Inl e \<Rightarrow> Inl e | Inr ys \<Rightarrow> Inr (y # ys)))"

text \<open>
  \<^verbatim>\<open>rawResults.map(...)\<close>: only an array has a callable \<open>map\<close>; on any other value of
  JSON origin the call throws.
\<close>

definition processedResults :: "engine \<Rightarrow> jsval \<Rightarrow> js_error + jsval list" where
  "processedResults E rawResults =
     (case rawResults of
        JArray items \<Rightarrow> map_results (processResult E) items
      | _ \<Rightarrow> Inl TypeError)"

text \<open>
  The vocabulary of the specification for a record: the field \<open>k\<close> of a value (\<open>undefined\<close>
  when the value has no such field) and the names of the fields a record has.
\<close>

definition field :: "jsval \<Rightarrow> string \<Rightarrow> jsval" where
  "field v k =
     (case v of
        JObject ms \<Rightarrow> (case own_property ms k of None \<Rightarrow> JUndefined | Some x \<Rightarrow> x)
      | _ \<Rightarrow> JUndefined)"

definition field_names :: "jsval \<Rightarrow> string list" where
  "field_names v = (case v of JObject ms \<Rightarrow> map fst ms | _ \<Rightarrow> [])"

section \<open>The component state\<close>

record TimingMetrics =
  embeddings :: jsnum
  search :: jsnum
  total_ms :: jsnum

text \<open>
  The \<^verbatim>\<open>useState\<close> cells of the component. A range input always holds a number, so
  \<open>threshold\<close> is never \<open>NaN\<close>; \<open>filtersExpanded\<close> only folds the filter panel and is
  left out.
\<close>

record app_state =
  searchTerm :: string
  threshold :: rat
  fast :: bool
  limit :: rat
  results :: "jsval list"
  loading :: bool
  error :: "string option"
  timingMetrics :: "TimingMetrics option"
  speed :: rat
  dataset :: string

definition initial_state :: app_state where
  "initial_state =
     \<lparr>searchTerm = [], threshold = 1 / 2, fast = False, limit = 10, results = [],
      loading = False, error = None, timingMetrics = None, speed = 0, dataset = ''reviews''\<rparr>"

text \<open>
  What the user can do: type in the search box, move the threshold slider, edit the limit
  (the event carries what \<^verbatim>\<open>parseInt\<close> returned), flip the fast switch, press a speed
  button, choose a dataset.
\<close>

datatype edit =
    SearchChange string
  | ThresholdChange rat
  | LimitChange jsnum
  | FastToggle
  | SpeedChange rat
  | DatasetChange string

fun handle :: "edit \<Rightarrow> app_state \<Rightarrow> app_state" where
  "handle (SearchChange v) s = s\<lparr>searchTerm := v\<rparr>"
| "handle (ThresholdChange v) s = s\<lparr>threshold := v\<rparr>"
| "handle (LimitChange NaN) s = s\<lparr>limit := 1\<rparr>"
| "handle (LimitChange (Num n)) s = s\<lparr>limit := (if n = 0 then 1 else n)\<rparr>"
| "handle FastToggle s = s\<lparr>fast := \<not> fast s\<rparr>"
| "handle (SpeedChange newSpeed) s = s\<lparr>speed := newSpeed\<rparr>"
| "handle (DatasetChange newDataset) s = s\<lparr>dataset := newDataset\<rparr>"

text \<open>The values the effect passes to \<^verbatim>\<open>debouncedSearch\<close>, which are also its dependencies.\<close>

definition args_of :: "app_state \<Rightarrow> args" where
  "args_of s = (searchTerm s, threshold s, fast s, limit s, speed s, dataset s)"

text \<open>What the page renders of the state (the conditions of the JSX).\<close>

definition error_shown :: "app_state \<Rightarrow> bool" where
  "error_shown s = (case error s of None \<Rightarrow> False | Some m \<Rightarrow> m \<noteq> [])"

definition results_shown :: "app_state \<Rightarrow> jsval list" where
  "results_shown s = (if \<not> loading s \<and> \<not> error_shown s then results s else [])"

definition timing_shown :: "app_state \<Rightarrow> TimingMetrics option" where
  "timing_shown s = (if loading s then None else timingMetrics s)"

section \<open>The debounced search\<close>

text \<open>
  The world around the component: the pending call of the debounced function (its
  arguments and the time at which its window elapses), the requests issued so far (URL
  and start time) and the lines written with \<^verbatim>\<open>console.error\<close>. Times are in
  milliseconds.
\<close>

type_synonym ms = rat

record world =
  app :: app_state
  timer :: "(args \<times> ms) option"
  fetches :: "(string \<times> ms) list"
  console :: "(string \<times> js_error) list"

text \<open>
  Modelled from the spec: the quiescence window of \<^verbatim>\<open>_.debounce(f, 500)\<close>. The
  function is lodash's; the component imports it and its source is not part of the
  repository.
\<close>

definition wait :: ms where
  "wait = 500"

text \<open>
  Modelled from the spec: a call of the debounced function. It replaces the pending
  arguments and starts the window again; it never runs the wrapped function itself.
\<close>

definition debounce_call :: "ms \<Rightarrow> 'a \<Rightarrow> ('a \<times> ms) option \<Rightarrow> ('a \<times> ms) option" where
  "debounce_call now a pending = Some (a, now + wait)"

text \<open>
  Modelled from the spec: whether the window of the pending call has elapsed by time
  \<open>now\<close>; the wrapped function then runs once, with the arguments of the last call.
\<close>

definition debounce_due :: "ms \<Rightarrow> ('a \<times> ms) option \<Rightarrow> bool" where
  "debounce_due now pending = (case pending of None \<Rightarrow> False | Some (a, t) \<Rightarrow> t \<le> now)"

text \<open>\<^verbatim>\<open>debouncedSearch\<close>, the debounced function, called at time \<open>now\<close>.\<close>

definition debouncedSearch :: "ms \<Rightarrow> args \<Rightarrow> world \<Rightarrow> world" where
  "debouncedSearch now a w = w\<lparr>timer := debounce_call now a (timer w)\<rparr>"

text \<open>
  The wrapped function up to its \<^verbatim>\<open>await fetch(url)\<close>, run at time \<open>now\<close>: the check
  of the search term, the three setters, the start time, the URL and the request.
\<close>

definition search_begin :: "engine \<Rightarrow> ms \<Rightarrow> args \<Rightarrow> world \<Rightarrow> world" where
  "search_begin E now a w =
     (case a of (query, others) \<Rightarrow>
        if query = [] then w\<lparr>app := (app w)\<lparr>results := [], timingMetrics := None\<rparr>\<rparr>
        else w\<lparr>app := (app w)\<lparr>loading := True, error := None, timingMetrics := None\<rparr>,
               fetches := fetches w @ [(url E a, now)]\<rparr>)"

text \<open>
  How a request ends: the promise of \<^verbatim>\<open>fetch\<close> rejects, or it resolves to a response
  with a status, whose body \<^verbatim>\<open>response.json()\<close> decodes or fails to decode.
\<close>

datatype body = BodyDecodeError | Body jsval

datatype outcome = NetworkFailure | Response int body

definition response_ok :: "int \<Rightarrow> bool" where
  "response_ok status = (200 \<le> status \<and> status \<le> 299)"

text \<open>
  The rest of the \<^verbatim>\<open>try\<close> block, from the resolution of \<^verbatim>\<open>fetch\<close>: the state it
  reaches and the exception it throws, if any. A setter that ran before the exception
  keeps its effect.
\<close>

definition try_block ::
  "engine \<Rightarrow> ms \<Rightarrow> outcome \<Rightarrow> ms \<Rightarrow> app_state \<Rightarrow> app_state \<times> js_error option" where
  "try_block E startTime out endTime s =
     (case out of
        NetworkFailure \<Rightarrow> (s, Some NetworkError)
      | Response status b \<Rightarrow>
          if \<not> response_ok status then (s, Some (HttpError status))
          else
            (case b of
               BodyDecodeError \<Rightarrow> (s, Some SyntaxError)
             | Body data \<Rightarrow>
                 (case get_prop data ''embedding_time'' of Inl e \<Rightarrow> (s, Some e) | Inr embeddingsTime \<Rightarrow>
                 (case get_prop data ''search_time'' of Inl e \<Rightarrow> (s, Some e) | Inr searchTime \<Rightarrow>
                 (case js_divide E embeddingsTime 1000000 of Inl e \<Rightarrow> (s, Some e) | Inr em \<Rightarrow>
                 (case js_divide E searchTime 1000000 of Inl e \<Rightarrow> (s, Some e) | Inr se \<Rightarrow>
                    (let s1 = s\<lparr>timingMetrics :=
                                 Some \<lparr>embeddings = em, search = se,
                                       total_ms = Num (endTime - startTime)\<rparr>\<rparr>
                     in (case get_prop data ''results'' of Inl e \<Rightarrow> (s1, Some e) | Inr rawResults \<Rightarrow>
                        (case processedResults E rawResults of
                           Inl e \<Rightarrow> (s1, Some e)
                         | Inr rs \<Rightarrow> (s1\<lparr>results := rs\<rparr>, None))))))))))"

definition failure_message :: string where
  "failure_message = ''Failed to fetch results. Please try again.''"

text \<open>
  The wrapped function from the resolution of \<^verbatim>\<open>fetch\<close> to its end, with the
  \<^verbatim>\<open>catch\<close> and \<^verbatim>\<open>finally\<close> blocks.
\<close>

definition search_complete :: "engine \<Rightarrow> ms \<Rightarrow> outcome \<Rightarrow> ms \<Rightarrow> world \<Rightarrow> world" where
  "search_complete E startTime out endTime w =
     (case try_block E startTime out endTime (app w) of
        (s, None) \<Rightarrow> w\<lparr>app := s\<lparr>loading := False\<rparr>\<rparr>
      | (s, Some err) \<Rightarrow>
          w\<lparr>app := s\<lparr>error := Some failure_message, loading := False\<rparr>,
            console := console w @ [(''Error fetching search results:'', err)]\<rparr>)"

text \<open>
  A handler runs at time \<open>now\<close>: the setter changes the state, and when a dependency of
  the effect changed, the effect calls the debounced function with the new values.
\<close>

definition dispatch :: "ms \<Rightarrow> edit \<Rightarrow> world \<Rightarrow> world" where
  "dispatch now e w =
     (let s = handle e (app w)
      in if args_of s = args_of (app w) then w\<lparr>app := s\<rparr>
         else debouncedSearch now (args_of s) (w\<lparr>app := s\<rparr>))"

text \<open>The component right after it is mounted at time \<open>now\<close>: the effect has run once.\<close>

definition mount :: "ms \<Rightarrow> world" where
  "mount now =
     debouncedSearch now (args_of initial_state)
       \<lparr>app = initial_state, timer = None, fetches = [], console = []\<rparr>"

text \<open>The window of the pending call elapses: the wrapped function starts.\<close>

definition fire :: "engine \<Rightarrow> world \<Rightarrow> world" where
  "fire E w =
     (case timer w of
        None \<Rightarrow> w
      | Some (a, t) \<Rightarrow> search_begin E t a (w\<lparr>timer := None\<rparr>))"

text \<open>Time passes up to \<open>now\<close> with no edit.\<close>

definition advance :: "engine \<Rightarrow> ms \<Rightarrow> world \<Rightarrow> world" where
  "advance E now w = (if debounce_due now (timer w) then fire E w else w)"






text \<open>
  The three ways a request fails before its body is read, each with the detail that is
  logged: a rejected \<^verbatim>\<open>fetch\<close>, a status outside 200 to 299, a body that is not JSON.
\<close>

fun failure_of :: "outcome \<Rightarrow> js_error option" where
  "failure_of NetworkFailure = Some NetworkError"
| "failure_of (Response status b) =
     (if \<not> response_ok status then Some (HttpError status)
      else (case b of BodyDecodeError \<Rightarrow> Some SyntaxError | Body data \<Rightarrow> None))"

section \<open>The parser never produces \<open>undefined\<close>\<close>

lemma lex_defined: "lex st cs = Some ts \<Longrightarrow> TAtom JUndefined \<notin> set ts"
  by (induction st cs arbitrary: ts rule: lex.induct)
     (auto simp: emit_def delim_def punct_def literal_of_def split: option.splits if_splits)

lemma complete_value_defined:
  "complete_value v st = Some (m', st') \<Longrightarrow> v \<noteq> JUndefined \<Longrightarrow> m' \<noteq> MDone JUndefined"
  by (cases "(v, st)" rule: complete_value.cases) auto

lemma pstep_done:
  "pstep m st t = Some (m', st') \<Longrightarrow> t \<noteq> TAtom JUndefined \<Longrightarrow> m' \<noteq> MDone JUndefined"
  by (induction m st t rule: pstep.induct) (auto dest: complete_value_defined split: if_splits)

lemma parse_tokens_defined:
  "parse_tokens m st ts = Some r \<Longrightarrow> TAtom JUndefined \<notin> set ts \<Longrightarrow> m \<noteq> MDone JUndefined
   \<Longrightarrow> r \<noteq> JUndefined"
proof (induction m st ts rule: parse_tokens.induct)
  case (3 m st t ts)
  from "3.prems"(1) obtain m' st' where st: "pstep m st t = Some (m', st')"
    and p: "parse_tokens m' st' ts = Some r"
    by (auto split: option.splits)
  from st "3.prems"(2) have "m' \<noteq> MDone JUndefined"
    by (auto dest: pstep_done)
  with "3.IH" st p "3.prems"(2) show ?case
    by auto
qed auto

lemma JSON_parse_defined: "JSON_parse s \<noteq> Some JUndefined"
  using lex_defined parse_tokens_defined
  by (fastforce simp: JSON_parse_def split: option.splits)

section \<open>Normalisation of one result item\<close>

lemma get_prop_total: "v \<noteq> JNull \<Longrightarrow> v \<noteq> JUndefined \<Longrightarrow> get_prop v k = Inr (field v k)"
  by (cases v) (simp_all add: field_def)

lemma project_defined:
  "j \<noteq> JNull \<Longrightarrow> j \<noteq> JUndefined \<Longrightarrow>
   project j = Inr (JObject [(''name'', field j ''name''), (''location'', field j ''location''),
     (''summary'', field j ''summary''), (''text'', field j ''text''), (''score'', field j ''score'')])"
  by (simp add: project_def get_prop_total)

lemma project_null: "project JNull = Inl TypeError"
  by (simp add: project_def)

text \<open>
  Claim C2, as stated, fails for a text that parses to \<open>null\<close>: every read of a field of
  \<open>null\<close> throws, the \<^verbatim>\<open>catch\<close> block runs, and the item keeps its raw text.
\<close>

theorem null_text_counterexample:
  "JSON_parse ''null'' = Some JNull \<and>
   processResult sample_engine (JObject [(''text'', JString ''null'')]) =
     Inr (JObject [(''text'', JString ''null'')])"
  by code_simp


text \<open>
  Claim C2, amended: for every raw result item whose \<open>text\<close> field is a string that
  parses as JSON to a value other than \<open>null\<close>, normalisation returns the record whose
  \<open>name\<close>, \<open>location\<close>, \<open>summary\<close>, \<open>text\<close> and \<open>score\<close> fields are the
  correspondingly named fields of the parsed value, an absent field being \<open>undefined\<close>;
  the \<open>text\<close> of the parsed value replaces the raw text.
\<close>

theorem parsed_item_projection:
  assumes "get_prop item ''text'' = Inr (JString s)" and "JSON_parse s = Some j" and "j \<noteq> JNull"
  shows "processResult E item =
    Inr (JObject [(''name'', field j ''name''), (''location'', field j ''location''),
      (''summary'', field j ''summary''), (''text'', field j ''text''), (''score'', field j ''score'')])"
proof -
  have "j \<noteq> JUndefined"
    using assms(2) JSON_parse_defined by auto
  with assms show ?thesis
    by (simp add: processResult_def JSON_parse_value_def project_defined)
qed

text \<open>
  The item \<open>{text: '{"name":"A","score":0.9}'}\<close> normalises to \<open>{name: "A", score: 0.9}\<close>,
  with \<open>location\<close>, \<open>summary\<close> and \<open>text\<close> undefined.
\<close>

theorem parsed_item_projection_witness:
  "processResult sample_engine (JObject [(''text'', JString ''{\"name\":\"A\",\"score\":0.9}'')]) =
     Inr (JObject [(''name'', JString ''A''), (''location'', JUndefined), (''summary'', JUndefined),
                   (''text'', JUndefined), (''score'', JNumber (9 / 10))])"
proof -
  let ?s = "''{\"name\":\"A\",\"score\":0.9}''"
  let ?j = "JObject [(''name'', JString ''A''), (''score'', JNumber (9 / 10))]"
  have a: "get_prop (JObject [(''text'', JString ?s)]) ''text'' = Inr (JString ?s)"
    by (simp add: own_property_def)
  have b: "JSON_parse ?s = Some ?j"
    by code_simp
  have c: "?j \<noteq> JNull"
    by simp
  show ?thesis
    using parsed_item_projection [OF a b c, of sample_engine]
    by (simp add: field_def own_property_def)
qed


section \<open>Normalisation of the results array\<close>






section \<open>The fields of a normalised record\<close>

lemma project_names:
  "project j = Inr r \<Longrightarrow> field_names r = [''name'', ''location'', ''summary'', ''text'', ''score'']"
  by (auto simp: project_def field_names_def split: sum.splits)

lemma processResult_names:
  "processResult E item = Inr r \<Longrightarrow>
   field_names r = [''text''] \<or>
   field_names r = [''name'', ''location'', ''summary'', ''text'', ''score'']"
  by (auto simp: processResult_def field_names_def split: sum.splits dest: project_names)

lemma own_property_absent: "k \<notin> fst ` set ms \<Longrightarrow> own_property ms k = None"
  by (simp add: own_property_def map_of_eq_None_iff)

lemma field_absent: "k \<notin> set (field_names r) \<Longrightarrow> field r k = JUndefined"
  by (cases r) (simp_all add: field_def field_names_def own_property_absent)

text \<open>
  Claim C9, as stated, fails: the parsed object below has a field \<open>id\<close>, and the
  normalised record has none.
\<close>

theorem extra_fields_counterexample:
  "JSON_parse ''{\"name\":\"A\",\"id\":7}'' =
     Some (JObject [(''name'', JString ''A''), (''id'', JNumber 7)]) \<and>
   processResult sample_engine (JObject [(''text'', JString ''{\"name\":\"A\",\"id\":7}'')]) =
     Inr (JObject [(''name'', JString ''A''), (''location'', JUndefined), (''summary'', JUndefined),
                   (''text'', JUndefined), (''score'', JUndefined)]) \<and>
   field (JObject [(''name'', JString ''A''), (''location'', JUndefined), (''summary'', JUndefined),
                   (''text'', JUndefined), (''score'', JUndefined)]) ''id'' = JUndefined"
  by code_simp

text \<open>
  Claim C9, amended: a normalised record has no field but \<open>name\<close>, \<open>location\<close>,
  \<open>summary\<close>, \<open>text\<close> and \<open>score\<close>, so every other field of the parsed object is
  dropped; and for an item whose \<open>text\<close> parses as a JSON value other than \<open>null\<close> it
  has exactly these five.
\<close>

theorem only_named_fields:
  assumes "processResult E item = Inr r"
  shows "set (field_names r) \<subseteq> {''name'', ''location'', ''summary'', ''text'', ''score''} \<and>
    (k \<notin> {''name'', ''location'', ''summary'', ''text'', ''score''} \<longrightarrow> field r k = JUndefined) \<and>
    (get_prop item ''text'' = Inr (JString s) \<and> JSON_parse s = Some j \<and> j \<noteq> JNull
       \<longrightarrow> field_names r = [''name'', ''location'', ''summary'', ''text'', ''score''])"
proof -
  from processResult_names [OF assms]
  have sub: "set (field_names r) \<subseteq> {''name'', ''location'', ''summary'', ''text'', ''score''}"
    by auto
  have absent: "field r k = JUndefined"
    if "k \<notin> {''name'', ''location'', ''summary'', ''text'', ''score''}"
    using that sub by (intro field_absent) blast
  have five: "field_names r = [''name'', ''location'', ''summary'', ''text'', ''score'']"
    if "get_prop item ''text'' = Inr (JString s) \<and> JSON_parse s = Some j \<and> j \<noteq> JNull"
  proof -
    from that have "j \<noteq> JUndefined"
      using JSON_parse_defined by auto
    with that assms have "project j = Inr r"
      by (simp add: processResult_def JSON_parse_value_def project_defined)
    then show ?thesis
      by (rule project_names)
  qed
  from sub absent five show ?thesis
    by blast
qed

theorem only_named_fields_witness:
  "field_names (JObject [(''name'', JString ''A''), (''location'', JUndefined),
       (''summary'', JUndefined), (''text'', JUndefined), (''score'', JUndefined)]) =
     [''name'', ''location'', ''summary'', ''text'', ''score''] \<and>
   field (JObject [(''name'', JString ''A''), (''location'', JUndefined),
       (''summary'', JUndefined), (''text'', JUndefined), (''score'', JUndefined)]) ''id'' = JUndefined"
proof -
  let ?s = "''{\"name\":\"A\",\"id\":7}''"
  let ?item = "JObject [(''text'', JString ?s)]"
  let ?j = "JObject [(''name'', JString ''A''), (''id'', JNumber 7)]"
  let ?r = "JObject [(''name'', JString ''A''), (''location'', JUndefined),
       (''summary'', JUndefined), (''text'', JUndefined), (''score'', JUndefined)]"
  have a: "processResult sample_engine ?item = Inr ?r"
    by code_simp
  have b: "get_prop ?item ''text'' = Inr (JString ?s) \<and> JSON_parse ?s = Some ?j \<and> ?j \<noteq> JNull"
    by code_simp
  have c: "''id'' \<notin> {''name'', ''location'', ''summary'', ''text'', ''score''}"
    by simp
  from only_named_fields [OF a, of "''id''" ?s ?j] b c show ?thesis
    by blast
qed

section \<open>Edge cases of the normalisation\<close>

lemma undefined_is_not_json: "JSON_parse ''undefined'' = None"
  by code_simp

text \<open>
  Claim C10: an item whose \<open>text\<close> parses as \<open>null\<close> and an item with no \<open>text\<close> field
  take the fallback branch and yield \<open>{text: rawText}\<close> (the raw text being
  \<open>undefined\<close> when the field is missing); an item whose \<open>text\<close> parses as a value that
  is neither \<open>null\<close> nor an object yields the record with all five fields undefined,
  so its raw text is lost.
\<close>

theorem edge_case_items:
  "(get_prop item ''text'' = Inr (JString s) \<and> JSON_parse s = Some JNull
      \<longrightarrow> processResult E item = Inr (JObject [(''text'', JString s)])) \<and>
   (own_property ms ''text'' = None
      \<longrightarrow> processResult E (JObject ms) = Inr (JObject [(''text'', JUndefined)])) \<and>
   (get_prop item ''text'' = Inr (JString s) \<and> JSON_parse s = Some j \<and> j \<noteq> JNull \<and>
    (\<forall>members. j \<noteq> JObject members)
      \<longrightarrow> processResult E item =
            Inr (JObject [(''name'', JUndefined), (''location'', JUndefined),
                          (''summary'', JUndefined), (''text'', JUndefined),
                          (''score'', JUndefined)]))"
proof -
  have null: "processResult E item = Inr (JObject [(''text'', JString s)])"
    if "get_prop item ''text'' = Inr (JString s) \<and> JSON_parse s = Some JNull"
    using that by (simp add: processResult_def JSON_parse_value_def project_null)
  have missing: "processResult E (JObject ms) = Inr (JObject [(''text'', JUndefined)])"
    if "own_property ms ''text'' = None"
    using that by (simp add: processResult_def JSON_parse_value_def undefined_is_not_json)
  have other: "processResult E item =
            Inr (JObject [(''name'', JUndefined), (''location'', JUndefined),
                          (''summary'', JUndefined), (''text'', JUndefined),
                          (''score'', JUndefined)])"
    if h: "get_prop item ''text'' = Inr (JString s) \<and> JSON_parse s = Some j \<and> j \<noteq> JNull \<and>
      (\<forall>members. j \<noteq> JObject members)"
  proof -
    from h have "j \<noteq> JUndefined"
      using JSON_parse_defined by auto
    moreover from h have "field j k = JUndefined" for k
      by (cases j) (simp_all add: field_def)
    ultimately show ?thesis
      using h by (simp add: processResult_def JSON_parse_value_def project_defined)
  qed
  from null missing other show ?thesis
    by blast
qed

theorem edge_case_items_witness:
  "processResult sample_engine (JObject [(''text'', JString ''null'')]) =
     Inr (JObject [(''text'', JString ''null'')]) \<and>
   processResult sample_engine (JObject [(''id'', JNumber 1)]) =
     Inr (JObject [(''text'', JUndefined)]) \<and>
   processResult sample_engine (JObject [(''text'', JString ''42'')]) =
     Inr (JObject [(''name'', JUndefined), (''location'', JUndefined),
                   (''summary'', JUndefined), (''text'', JUndefined), (''score'', JUndefined)])"
proof -
  have a: "get_prop (JObject [(''text'', JString ''null'')]) ''text'' = Inr (JString ''null'') \<and>
           JSON_parse ''null'' = Some JNull"
    by code_simp
  have b: "own_property [(''id'', JNumber 1)] ''text'' = None"
    by code_simp
  have "get_prop (JObject [(''text'', JString ''42'')]) ''text'' = Inr (JString ''42'') \<and>
           JSON_parse ''42'' = Some (JNumber 42)"
    by code_simp
  then have c: "get_prop (JObject [(''text'', JString ''42'')]) ''text'' = Inr (JString ''42'') \<and>
           JSON_parse ''42'' = Some (JNumber 42) \<and> JNumber 42 \<noteq> JNull \<and>
           (\<forall>members. JNumber 42 \<noteq> JObject members)"
    by simp
  from edge_case_items
    [of "JObject [(''text'', JString ''null'')]" "''null''" sample_engine "[(''id'', JNumber 1)]"]
    a b
  have ab: "processResult sample_engine (JObject [(''text'', JString ''null'')]) =
     Inr (JObject [(''text'', JString ''null'')]) \<and>
   processResult sample_engine (JObject [(''id'', JNumber 1)]) =
     Inr (JObject [(''text'', JUndefined)])"
    by blast
  from edge_case_items
    [of "JObject [(''text'', JString ''42'')]" "''42''" sample_engine _ "JNumber 42"] c
  have "processResult sample_engine (JObject [(''text'', JString ''42'')]) =
     Inr (JObject [(''name'', JUndefined), (''location'', JUndefined),
                   (''summary'', JUndefined), (''text'', JUndefined), (''score'', JUndefined)])"
    by blast
  with ab show ?thesis
    by blast
qed

section \<open>The end of a request\<close>

lemma try_block_failure:
  "failure_of out = Some detail \<Longrightarrow> try_block E startTime out endTime s = (s, Some detail)"
  by (cases out) (auto simp: try_block_def split: if_splits body.splits)

text \<open>
  Claim C6, as stated, fails in one point: a failed request does not leave the results
  array empty, it leaves it as it was. Here a request fails with status 500 while the
  state holds the result of an earlier search.
\<close>

theorem stale_results_counterexample:
  "results (app (search_complete sample_engine 0 (Response 500 BodyDecodeError) 120
      \<lparr>app = initial_state\<lparr>searchTerm := ''tea'', results := [JObject [(''name'', JString ''A'')]],
                            loading := True\<rparr>,
       timer = None, fetches = [], console = []\<rparr>)) = [JObject [(''name'', JString ''A'')]]"
  by (simp add: search_complete_def try_block_def response_ok_def)

text \<open>
  Claim C6, amended: for every request that ends in a status outside 200 to 299, in a
  network failure or in a body that does not decode, the controller sets the error to the
  one generic message (the same for every status), logs the underlying detail, issues no
  further request and arms no timer, clears the loading flag, and leaves the results array
  and the timing as they were; the page shows no result while the error is set.
\<close>

theorem failed_request:
  assumes "failure_of out = Some detail"
  shows "error (app (search_complete E startTime out endTime w)) = Some failure_message \<and>
    \<not> loading (app (search_complete E startTime out endTime w)) \<and>
    results (app (search_complete E startTime out endTime w)) = results (app w) \<and>
    results_shown (app (search_complete E startTime out endTime w)) = [] \<and>
    timingMetrics (app (search_complete E startTime out endTime w)) = timingMetrics (app w) \<and>
    console (search_complete E startTime out endTime w) =
      console w @ [(''Error fetching search results:'', detail)] \<and>
    fetches (search_complete E startTime out endTime w) = fetches w \<and>
    timer (search_complete E startTime out endTime w) = timer w"
  by (simp add: search_complete_def try_block_failure [OF assms] results_shown_def
      error_shown_def failure_message_def)

theorem failed_request_witness:
  "error (app (search_complete sample_engine 0 (Response 500 (Body JNull)) 120 (mount 0))) =
     Some ''Failed to fetch results. Please try again.'' \<and>
   console (search_complete sample_engine 0 (Response 500 (Body JNull)) 120 (mount 0)) =
     [(''Error fetching search results:'', HttpError 500)] \<and>
   results (app (search_complete sample_engine 0 (Response 500 (Body JNull)) 120 (mount 0))) = []"
proof -
  have "failure_of (Response 500 (Body JNull)) = Some (HttpError 500)"
    by (simp add: response_ok_def)
  from failed_request [OF this, of sample_engine 0 120 "mount 0"] show ?thesis
    by (simp add: failure_message_def mount_def debouncedSearch_def initial_state_def)
qed



section \<open>The parameters of the request\<close>
















section \<open>Debounced edits\<close>


lemma dispatch_effective:
  "args_of (handle e (app w)) \<noteq> args_of (app w) \<Longrightarrow>
   dispatch t e w = w\<lparr>app := handle e (app w), timer := Some (args_of (handle e (app w)), t + wait)\<rparr>"
  by (simp add: dispatch_def debouncedSearch_def debounce_call_def Let_def)



lemma search_begin_empty:
  "fst a = [] \<Longrightarrow>
   search_begin E now a w = w\<lparr>app := (app w)\<lparr>results := [], timingMetrics := None\<rparr>\<rparr>"
  by (cases a) (simp add: search_begin_def)



section \<open>Clearing the search term\<close>

text \<open>
  Claim C4, as stated, fails: the check of the search term is the first statement of the
  debounced function, so it runs when the window elapses and not at the edit. Right after
  the edit, and 499 ms later, the results are still those of the earlier search. A search
  term of one space is not empty to the check, and a request is issued for it.
\<close>

theorem deferred_reset_counterexample:
  "results (app (dispatch 1000 (SearchChange [])
      \<lparr>app = initial_state\<lparr>searchTerm := ''tea'', results := [JObject [(''name'', JString ''A'')]]\<rparr>,
       timer = None, fetches = [], console = []\<rparr>)) = [JObject [(''name'', JString ''A'')]] \<and>
   results (app (advance sample_engine 1499 (dispatch 1000 (SearchChange [])
      \<lparr>app = initial_state\<lparr>searchTerm := ''tea'', results := [JObject [(''name'', JString ''A'')]]\<rparr>,
       timer = None, fetches = [], console = []\<rparr>))) = [JObject [(''name'', JString ''A'')]] \<and>
   fetches (advance sample_engine 1500 (dispatch 1000 (SearchChange '' '')
      \<lparr>app = initial_state\<lparr>searchTerm := ''tea'', results := [JObject [(''name'', JString ''A'')]]\<rparr>,
       timer = None, fetches = [], console = []\<rparr>)) =
     [(''https://po65lcryad.execute-api.us-east-1.amazonaws.com/dev/search?search=%20&optimized=false&limit=10&threshold=0.5&speed=0&dataset=reviews'',
       1500)]"
  by code_simp

text \<open>
  Claim C4, amended: when the search term is edited to the empty string, the edit itself
  changes nothing but the term and issues no request; nothing happens before 500 ms have
  passed; once they have passed with no further edit, the results are empty, the timing is
  cleared and still no request has been issued.
\<close>

theorem empty_term_reset:
  assumes "searchTerm (app w) \<noteq> []"
  shows "app (dispatch t (SearchChange []) w) = (app w)\<lparr>searchTerm := []\<rparr> \<and>
    fetches (dispatch t (SearchChange []) w) = fetches w \<and>
    (\<forall>now. now < t + wait \<longrightarrow>
       advance E now (dispatch t (SearchChange []) w) = dispatch t (SearchChange []) w) \<and>
    (\<forall>now. t + wait \<le> now \<longrightarrow>
       results (app (advance E now (dispatch t (SearchChange []) w))) = [] \<and>
       timingMetrics (app (advance E now (dispatch t (SearchChange []) w))) = None \<and>
       fetches (advance E now (dispatch t (SearchChange []) w)) = fetches w)"
proof -
  let ?s = "(app w)\<lparr>searchTerm := []\<rparr>"
  have "args_of (handle (SearchChange []) (app w)) \<noteq> args_of (app w)"
    using assms by (simp add: args_of_def)
  from dispatch_effective [OF this]
  have d: "dispatch t (SearchChange []) w = w\<lparr>app := ?s, timer := Some (args_of ?s, t + wait)\<rparr>"
    by simp
  have e: "fst (args_of ?s) = []"
    by (simp add: args_of_def)
  show ?thesis
    by (simp add: d advance_def debounce_due_def fire_def search_begin_empty [OF e])
qed

theorem empty_term_reset_witness:
  "results (app (advance sample_engine 1500 (dispatch 1000 (SearchChange [])
      \<lparr>app = initial_state\<lparr>searchTerm := ''tea'', results := [JObject [(''name'', JString ''A'')]]\<rparr>,
       timer = None, fetches = [], console = []\<rparr>))) = [] \<and>
   fetches (advance sample_engine 1500 (dispatch 1000 (SearchChange [])
      \<lparr>app = initial_state\<lparr>searchTerm := ''tea'', results := [JObject [(''name'', JString ''A'')]]\<rparr>,
       timer = None, fetches = [], console = []\<rparr>)) = []"
proof -
  let ?w = "\<lparr>app = initial_state\<lparr>searchTerm := ''tea'',
      results := [JObject [(''name'', JString ''A'')]]\<rparr>, timer = None, fetches = [], console = []\<rparr>"
  have "searchTerm (app ?w) \<noteq> []"
    by simp
  from empty_term_reset [OF this, of 1000 sample_engine] show ?thesis
    by (simp add: wait_def)
qed

text \<open>
  Claim C5 at a prior error state: a search for \<open>tea\<close> fails with status 500, then the
  user clears the search box. After the window has elapsed the search term is empty and
  no call is pending, and the error message is still set: the branch for the empty term
  returns before any \<^verbatim>\<open>setError(null)\<close>.
\<close>

theorem error_survives_clearing:
  "error (app (advance sample_engine 1500 (dispatch 1000 (SearchChange [])
      (search_complete sample_engine 600 (Response 500 BodyDecodeError) 700
         (advance sample_engine 600 (dispatch 100 (SearchChange ''tea'') (mount 0))))))) =
     Some ''Failed to fetch results. Please try again.'' \<and>
   searchTerm (app (advance sample_engine 1500 (dispatch 1000 (SearchChange [])
      (search_complete sample_engine 600 (Response 500 BodyDecodeError) 700
         (advance sample_engine 600 (dispatch 100 (SearchChange ''tea'') (mount 0))))))) = [] \<and>
   timer (advance sample_engine 1500 (dispatch 1000 (SearchChange [])
      (search_complete sample_engine 600 (Response 500 BodyDecodeError) 700
         (advance sample_engine 600 (dispatch 100 (SearchChange ''tea'') (mount 0)))))) = None"
  by code_simp

end
